theory Spec2Isabelle
  imports Main "HOL-Library.Word"
begin

unbundle bit_operations_syntax

section \<open>JavaScript values used by the launch page\<close>

text \<open>
  A \<^verbatim>\<open>URLSearchParams\<close> object is an ordered list of name/value pairs; \<^verbatim>\<open>get\<close>
  returns the value of the first pair with the given name, or \<^verbatim>\<open>null\<close>.  A value of
  type \<^verbatim>\<open>string | null\<close> is a \<^typ>\<open>string option\<close>, with \<^term>\<open>None\<close> for
  \<^verbatim>\<open>null\<close>.  Strings are byte strings: every string the launch sequence produces
  itself is ASCII.
\<close>

type_synonym params = "(string \<times> string) list"

definition params_get :: "params \<Rightarrow> string \<Rightarrow> string option" where
  "params_get ps k = map_of ps k"

text \<open>
  \<^verbatim>\<open>if (v)\<close> and \<^verbatim>\<open>!v\<close> on a \<^verbatim>\<open>string | null\<close>: \<^verbatim>\<open>null\<close> and the empty
  string are falsy, every other string is truthy.
\<close>

definition truthy :: "string option \<Rightarrow> bool" where
  "truthy v = (case v of None \<Rightarrow> False | Some s \<Rightarrow> s \<noteq> [])"

text \<open>
  String conversion, as done by a template literal, by the \<^verbatim>\<open>URLSearchParams\<close>
  constructor and by \<^verbatim>\<open>sessionStorage.setItem\<close>: \<^verbatim>\<open>null\<close> becomes
  \<^verbatim>\<open>"null"\<close>, and \<^verbatim>\<open>undefined\<close> (a member that a parsed JSON object does not
  have) becomes \<^verbatim>\<open>"undefined"\<close>.
\<close>

definition null_str :: "string option \<Rightarrow> string" where
  "null_str v = (case v of None \<Rightarrow> ''null'' | Some s \<Rightarrow> s)"

definition undefined_str :: "string option \<Rightarrow> string" where
  "undefined_str v = (case v of None \<Rightarrow> ''undefined'' | Some s \<Rightarrow> s)"

text \<open>\<^verbatim>\<open>s.includes(t)\<close>: \<^verbatim>\<open>t\<close> occurs in \<^verbatim>\<open>s\<close> as a contiguous substring.\<close>

fun starts_with :: "string \<Rightarrow> string \<Rightarrow> bool" where
  "starts_with s [] = True"
| "starts_with [] (d # t) = False"
| "starts_with (c # s) (d # t) = (c = d \<and> starts_with s t)"

fun str_includes :: "string \<Rightarrow> string \<Rightarrow> bool" where
  "str_includes [] t = (t = [])"
| "str_includes (c # s) t = (starts_with (c # s) t \<or> str_includes s t)"

text \<open>\<^verbatim>\<open>xs.join(sep)\<close> on an array of strings.\<close>

fun join :: "string \<Rightarrow> string list \<Rightarrow> string" where
  "join sep [] = []"
| "join sep [x] = x"
| "join sep (x # y # xs) = x @ sep @ join sep (y # xs)"

text \<open>Decimal rendering of a number in a template literal (HTTP status codes).\<close>

definition digit_char :: "nat \<Rightarrow> char" where
  "digit_char d = char_of (48 + d)"

function show_nat :: "nat \<Rightarrow> string" where
  "show_nat n = (if n < 10 then [digit_char n] else show_nat (n div 10) @ [digit_char (n mod 10)])"
  by pat_completeness auto
termination
  by (relation "measure id") auto

declare show_nat.simps [simp del]

section \<open>Base64\<close>

type_synonym byte = "8 word"

text \<open>
  \<^verbatim>\<open>btoa(String.fromCharCode(...bytes))\<close> is the standard base64 encoding of the byte
  array (RFC 4648, section 4): the bytes are cut into 6-bit groups, most significant bit
  first, the last group is filled with zero bits, every group is written as one
  character of the alphabet, and \<^verbatim>\<open>=\<close> pads the output to a multiple of four
  characters.
\<close>

fun sextets :: "byte list \<Rightarrow> nat list" where
  "sextets (a # b # c # bs) =
     [unat a div 4, (unat a mod 4) * 16 + unat b div 16,
      (unat b mod 16) * 4 + unat c div 64, unat c mod 64] @ sextets bs"
| "sextets [a, b] = [unat a div 4, (unat a mod 4) * 16 + unat b div 16, (unat b mod 16) * 4]"
| "sextets [a] = [unat a div 4, (unat a mod 4) * 16]"
| "sextets [] = []"

definition base64_alphabet :: string where
  "base64_alphabet = ''ABCDEFGHIJKLMNOPQRSTUVWXYZabcdefghijklmnopqrstuvwxyz0123456789+/''"

definition base64url_alphabet :: string where
  "base64url_alphabet = ''ABCDEFGHIJKLMNOPQRSTUVWXYZabcdefghijklmnopqrstuvwxyz0123456789-_''"

definition btoa :: "byte list \<Rightarrow> string" where
  "btoa bs = map (\<lambda>n. base64_alphabet ! n) (sextets bs)
             @ replicate ((3 - length bs mod 3) mod 3) (CHR ''='')"

text \<open>\<^verbatim>\<open>s.replace(/c/g, d)\<close> for a single character, and \<^verbatim>\<open>s.replace(/c/g, '')\<close>.\<close>

definition replace_all :: "char \<Rightarrow> char \<Rightarrow> string \<Rightarrow> string" where
  "replace_all c d s = map (\<lambda>x. if x = c then d else x) s"

definition remove_all :: "char \<Rightarrow> string \<Rightarrow> string" where
  "remove_all c s = filter (\<lambda>x. x \<noteq> c) s"

text \<open>
  \<^verbatim>\<open>
  function base64UrlEncode(buffer: Uint8Array): string {
    const base64 = btoa(String.fromCharCode(...Array.from(buffer)));
    return base64.replace(/\+/g, '-').replace(/\//g, '_').replace(/=/g, '');
  }
  \<close>
\<close>

definition base64UrlEncode :: "byte list \<Rightarrow> string" where
  "base64UrlEncode buffer =
     (let base64 = btoa buffer
      in remove_all (CHR ''='') (replace_all (CHR ''/'') (CHR ''_'')
           (replace_all (CHR ''+'') (CHR ''-'') base64)))"

text \<open>
  What the specification asks for, in its own words: the URL-safe, unpadded base64
  encoding (RFC 4648, section 5, without padding).  The 6-bit groups are written in the
  URL-safe alphabet and nothing is appended.
\<close>

definition base64url_unpadded :: "byte list \<Rightarrow> string" where
  "base64url_unpadded bs = map (\<lambda>n. base64url_alphabet ! n) (sextets bs)"

section \<open>SHA-256\<close>

text \<open>
  \<^verbatim>\<open>crypto.subtle.digest('SHA-256', data)\<close> is the hash function of FIPS 180-4 on a
  byte array, computed on 32-bit words with wrap-around addition.
\<close>

type_synonym u32 = "32 word"

definition rotr :: "nat \<Rightarrow> u32 \<Rightarrow> u32" where
  "rotr n x = drop_bit n x OR push_bit (32 - n) x"

definition Ch :: "u32 \<Rightarrow> u32 \<Rightarrow> u32 \<Rightarrow> u32" where
  "Ch x y z = (x AND y) XOR (NOT x AND z)"

definition Maj :: "u32 \<Rightarrow> u32 \<Rightarrow> u32 \<Rightarrow> u32" where
  "Maj x y z = (x AND y) XOR (x AND z) XOR (y AND z)"

definition Sigma0 :: "u32 \<Rightarrow> u32" where
  "Sigma0 x = rotr 2 x XOR rotr 13 x XOR rotr 22 x"

definition Sigma1 :: "u32 \<Rightarrow> u32" where
  "Sigma1 x = rotr 6 x XOR rotr 11 x XOR rotr 25 x"

definition sigma0 :: "u32 \<Rightarrow> u32" where
  "sigma0 x = rotr 7 x XOR rotr 18 x XOR drop_bit 3 x"

definition sigma1 :: "u32 \<Rightarrow> u32" where
  "sigma1 x = rotr 17 x XOR rotr 19 x XOR drop_bit 10 x"

text \<open>
  The round constants are the first 32 bits of the fractional parts of the cube roots of
  the first 64 primes, here in decimal.
\<close>

definition K256 :: "u32 list" where
  "K256 =
    [1116352408, 1899447441, 3049323471, 3921009573, 961987163, 1508970993,
     2453635748, 2870763221, 3624381080, 310598401, 607225278, 1426881987,
     1925078388, 2162078206, 2614888103, 3248222580, 3835390401, 4022224774,
     264347078, 604807628, 770255983, 1249150122, 1555081692, 1996064986,
     2554220882, 2821834349, 2952996808, 3210313671, 3336571891, 3584528711,
     113926993, 338241895, 666307205, 773529912, 1294757372, 1396182291,
     1695183700, 1986661051, 2177026350, 2456956037, 2730485921, 2820302411,
     3259730800, 3345764771, 3516065817, 3600352804, 4094571909, 275423344,
     430227734, 506948616, 659060556, 883997877, 958139571, 1322822218,
     1537002063, 1747873779, 1955562222, 2024104815, 2227730452, 2361852424,
     2428436474, 2756734187, 3204031479, 3329325298]"

text \<open>
  The message schedule.  The window holds the sixteen most recent words, the newest
  first, so that the words 2, 7, 15 and 16 steps back sit at positions 1, 6, 14 and 15.
\<close>

fun schedule :: "nat \<Rightarrow> u32 list \<Rightarrow> u32 list" where
  "schedule 0 win = []"
| "schedule (Suc n) win =
     (let w = sigma1 (win ! 1) + win ! 6 + sigma0 (win ! 14) + win ! 15
      in w # schedule n (w # take 15 win))"

type_synonym hstate = "u32 \<times> u32 \<times> u32 \<times> u32 \<times> u32 \<times> u32 \<times> u32 \<times> u32"

fun sha_round :: "hstate \<Rightarrow> u32 \<times> u32 \<Rightarrow> hstate" where
  "sha_round (a, b, c, d, e, f, g, h) (k, w) =
     (let t1 = h + Sigma1 e + Ch e f g + k + w;
          t2 = Sigma0 a + Maj a b c
      in (t1 + t2, a, b, c, d + t1, e, f, g))"

fun add_state :: "hstate \<Rightarrow> hstate \<Rightarrow> hstate" where
  "add_state (a, b, c, d, e, f, g, h) (a', b', c', d', e', f', g', h') =
     (a + a', b + b', c + c', d + d', e + e', f + f', g + g', h + h')"

definition compress :: "hstate \<Rightarrow> u32 list \<Rightarrow> hstate" where
  "compress hs m = add_state hs (foldl sha_round hs (zip K256 (m @ schedule 48 (rev m))))"

definition be32 :: "byte \<Rightarrow> byte \<Rightarrow> byte \<Rightarrow> byte \<Rightarrow> u32" where
  "be32 a b c d = push_bit 24 (ucast a) OR push_bit 16 (ucast b) OR push_bit 8 (ucast c) OR ucast d"

fun words_of :: "byte list \<Rightarrow> u32 list" where
  "words_of (a # b # c # d # bs) = be32 a b c d # words_of bs"
| "words_of bs = []"

definition bytes_of :: "u32 \<Rightarrow> byte list" where
  "bytes_of x = [ucast (drop_bit 24 x), ucast (drop_bit 16 x), ucast (drop_bit 8 x), ucast x]"

text \<open>
  Padding: the byte \<open>0x80\<close>, then zero bytes up to 56 modulo 64, then the length of the
  message in bits as a 64-bit big-endian number.
\<close>

definition sha_pad :: "byte list \<Rightarrow> byte list" where
  "sha_pad m =
     (let l = length m;
          k = (119 - l mod 64) mod 64;
          n = (of_nat (8 * l) :: 64 word)
      in m @ [0x80] @ replicate k 0 @ map (\<lambda>i. ucast (drop_bit (8 * (7 - i)) n)) [0..<8])"

fun sha_blocks :: "nat \<Rightarrow> hstate \<Rightarrow> u32 list \<Rightarrow> hstate" where
  "sha_blocks 0 hs ws = hs"
| "sha_blocks (Suc n) hs ws = sha_blocks n (compress hs (take 16 ws)) (drop 16 ws)"

definition H0 :: hstate where
  "H0 = (0x6a09e667, 0xbb67ae85, 0x3c6ef372, 0xa54ff53a,
         0x510e527f, 0x9b05688c, 0x1f83d9ab, 0x5be0cd19)"

fun digest_bytes :: "hstate \<Rightarrow> byte list" where
  "digest_bytes (a, b, c, d, e, f, g, h) =
     bytes_of a @ bytes_of b @ bytes_of c @ bytes_of d @
     bytes_of e @ bytes_of f @ bytes_of g @ bytes_of h"

definition sha256 :: "byte list \<Rightarrow> byte list" where
  "sha256 m = (let ws = words_of (sha_pad m) in digest_bytes (sha_blocks (length ws div 16) H0 ws))"

section \<open>PKCE helper functions\<close>

text \<open>
  The browser's random source is a parameter: \<open>entropy i\<close> is the \<open>i\<close>-th byte that
  the cryptographic generator yields during a page load.
  \<^verbatim>\<open>crypto.randomUUID()\<close> draws sixteen bytes and formats them as a version-4 UUID
  (RFC 4122: version and variant bits set, lower-case hexadecimal, groups of 8-4-4-4-12
  digits).  It is the first draw of a page load; \<^verbatim>\<open>crypto.getRandomValues\<close> on the
  32-byte array of \<^verbatim>\<open>generateCodeVerifier\<close> is the second.  The page is taken to run
  in a secure context, where \<^verbatim>\<open>crypto.randomUUID\<close> and \<^verbatim>\<open>crypto.subtle\<close> exist.
\<close>

definition hex_byte :: "byte \<Rightarrow> string" where
  "hex_byte b = [''0123456789abcdef'' ! (unat b div 16), ''0123456789abcdef'' ! (unat b mod 16)]"

definition randomUUID :: "(nat \<Rightarrow> byte) \<Rightarrow> string" where
  "randomUUID entropy =
     concat (map (\<lambda>i. hex_byte (entropy i)) [0, 1, 2, 3]) @ ''-'' @
     concat (map (\<lambda>i. hex_byte (entropy i)) [4, 5]) @ ''-'' @
     hex_byte ((entropy 6 AND 0x0f) OR 0x40) @ hex_byte (entropy 7) @ ''-'' @
     hex_byte ((entropy 8 AND 0x3f) OR 0x80) @ hex_byte (entropy 9) @ ''-'' @
     concat (map (\<lambda>i. hex_byte (entropy i)) [10, 11, 12, 13, 14, 15])"

definition getRandomValues :: "(nat \<Rightarrow> byte) \<Rightarrow> nat \<Rightarrow> byte list" where
  "getRandomValues entropy n = map (\<lambda>i. entropy (16 + i)) [0..<n]"

text \<open>
  \<^verbatim>\<open>
  function generateCodeVerifier(): string {
    const array = new Uint8Array(32);
    crypto.getRandomValues(array);
    return base64UrlEncode(array);
  }
  \<close>
\<close>

definition generateCodeVerifier :: "(nat \<Rightarrow> byte) \<Rightarrow> string" where
  "generateCodeVerifier entropy = base64UrlEncode (getRandomValues entropy 32)"

text \<open>\<^verbatim>\<open>new TextEncoder().encode(s)\<close>: the bytes of the string.\<close>

definition TextEncoder_encode :: "string \<Rightarrow> byte list" where
  "TextEncoder_encode s = map of_char s"

text \<open>
  \<^verbatim>\<open>
  async function generateCodeChallenge(verifier: string): Promise<string> {
    const encoder = new TextEncoder();
    const data = encoder.encode(verifier);
    const hash = await crypto.subtle.digest('SHA-256', data);
    return base64UrlEncode(new Uint8Array(hash));
  }
  \<close>
\<close>

definition generateCodeChallenge :: "string \<Rightarrow> string" where
  "generateCodeChallenge verifier =
     (let data = TextEncoder_encode verifier;
          hash = sha256 data
      in base64UrlEncode hash)"

section \<open>Configuration constants (src/config.ts)\<close>

definition MEDPLUM_CLIENT_ID :: string where
  "MEDPLUM_CLIENT_ID = ''d68a6a98-d5ea-4e1b-9dff-ae215249179f''"

definition SMART_HEALTH_IT_CLIENT_ID :: string where
  "SMART_HEALTH_IT_CLIENT_ID = ''your-client-id''"

definition MEDPLUM_AUTH_URL :: string where
  "MEDPLUM_AUTH_URL = ''https://api.medplum.com/oauth2/authorize''"

definition SMART_HEALTH_IT_AUTH_URL :: string where
  "SMART_HEALTH_IT_AUTH_URL = ''https://launch.smarthealthit.org/v/r4/fhir''"

definition FHIR_SCOPE :: string where
  "FHIR_SCOPE = ''launch/patient patient/*.read''"

section \<open>The browser and the page\<close>

text \<open>
  What a page load is given.  The HTTP peer, the URL parser and the random source are
  parameters:
  \<^item> \<open>location_search\<close> is \<^verbatim>\<open>new URLSearchParams(window.location.search)\<close>;
  \<^item> \<open>location_origin\<close> is \<^verbatim>\<open>window.location.origin\<close>;
  \<^item> \<open>fetch\<close> answers a request, \<^term>\<open>None\<close> when the promise rejects (network failure);
  \<^item> \<open>URL_hostname s\<close> is \<^verbatim>\<open>new URL(s).hostname\<close>, \<^term>\<open>None\<close> when the
    constructor throws a \<^verbatim>\<open>TypeError\<close> (the string is not an absolute URL);
  \<^item> \<open>entropy\<close> is the random byte source.
  A request body and the query of a URL are kept as the parameter list they are
  serialised from.
\<close>

datatype request = GET string | POST string params

text \<open>
  A response.  \<open>body_json\<close> is what \<^verbatim>\<open>response.json()\<close> resolves to: \<^term>\<open>None\<close>
  when the body is not JSON (the promise rejects), otherwise the members of the parsed
  object.  The interfaces \<^verbatim>\<open>SmartConfiguration\<close> and \<^verbatim>\<open>TokenResponse\<close> declare
  string members; a member can be absent, which reads as \<^verbatim>\<open>undefined\<close>.
\<close>

record response =
  status :: nat
  statusText :: string
  body_text :: string
  body_json :: "(string \<rightharpoonup> string) option"

definition ok :: "response \<Rightarrow> bool" where
  "ok r = (200 \<le> status r \<and> status r \<le> 299)"

record browser =
  location_search :: params
  location_origin :: string
  fetch :: "request \<Rightarrow> response option"
  URL_hostname :: "string \<Rightarrow> string option"
  entropy :: "nat \<Rightarrow> byte"

text \<open>
  What the page does to the outside, in order: network requests, assignments to
  \<^verbatim>\<open>window.location.href\<close> (the URL as its base and its query parameters) and
  calls of the router's \<^verbatim>\<open>navigate\<close>.  Console output is not modelled.
\<close>

datatype event = Fetch request | Assign_href string params | Navigate string

record MedplumClientOptions =
  baseUrl :: string
  fhirUrlPath :: string
  accessToken :: "string option"

text \<open>
  The state a page load works on: the tab's \<^verbatim>\<open>sessionStorage\<close>, the events so far,
  and of the mounted \<^verbatim>\<open>LaunchPage\<close> component the ref \<^verbatim>\<open>hasInitialized\<close>, the
  state \<^verbatim>\<open>error\<close> and the client of the Medplum context.
\<close>

record world =
  sessionStorage :: "string \<rightharpoonup> string"
  events :: "event list"
  hasInitialized :: bool
  error :: "string option"
  medplum :: "MedplumClientOptions option"

definition getItem :: "world \<Rightarrow> string \<Rightarrow> string option" where
  "getItem w k = sessionStorage w k"

definition setItem :: "string \<Rightarrow> string \<Rightarrow> world \<Rightarrow> world" where
  "setItem k v w = w\<lparr>sessionStorage := (sessionStorage w)(k \<mapsto> v)\<rparr>"

definition removeItem :: "string \<Rightarrow> world \<Rightarrow> world" where
  "removeItem k w = w\<lparr>sessionStorage := (sessionStorage w)(k := None)\<rparr>"

definition emit :: "event \<Rightarrow> world \<Rightarrow> world" where
  "emit e w = w\<lparr>events := events w @ [e]\<rparr>"

text \<open>
  Every \<^verbatim>\<open>throw\<close> of the launch page is a constructor, named after the error kinds of
  the specification where it has one; the last three are thrown by the platform.
\<close>

datatype launch_error =
    OAuthProviderError string "string option"
  | MissingLaunchParameters
  | ConfigurationUnavailable string nat string
  | MissingParameter "string list"
  | StateMismatch
  | NoIssuerInStorage
  | ExpiredSession
  | TokenExchangeFailed nat string
  | InvalidURL string
  | FetchRejected
  | JsonSyntaxError

fun error_message :: "launch_error \<Rightarrow> string" where
  "error_message (OAuthProviderError e d) =
     ''OAuth error: '' @ e @ (if truthy d then '' - '' @ null_str d else [])"
| "error_message MissingLaunchParameters = ''Missing iss parameter for EHR launch''"
| "error_message (ConfigurationUnavailable configUrl st stText) =
     ''Failed to fetch SMART configuration from '' @ configUrl @ '': '' @ show_nat st @ '' '' @ stText"
| "error_message (MissingParameter missing) =
     ''Missing required parameters in authorization response: '' @ join '', '' missing"
| "error_message StateMismatch =
     ''State parameter mismatch - possible session expired. Please try launching the app again.''"
| "error_message NoIssuerInStorage = ''No issuer found in session storage''"
| "error_message ExpiredSession = ''Missing code verifier - session may have expired''"
| "error_message (TokenExchangeFailed st errorText) =
     ''Failed to get access token: '' @ show_nat st @ '' '' @ errorText"
| "error_message (InvalidURL u) = ''Invalid URL''"
| "error_message FetchRejected = ''Failed to fetch''"
| "error_message JsonSyntaxError = ''Unexpected token''"

record SmartConfiguration =
  authorization_endpoint :: "string option"
  token_endpoint :: "string option"

record TokenResponse =
  access_token :: "string option"
  patient :: "string option"

section \<open>The launch page\<close>

text \<open>
  \<^verbatim>\<open>
  function getClientId(params: URLSearchParams, iss: string): string {
    const clientId = params.get('client_id');
    if (clientId) { return clientId; }
    const issuerUrl = new URL(iss);
    const allowedHosts = ['smarthealthit.org'];
    if (allowedHosts.includes(issuerUrl.hostname)) { return SMART_HEALTH_IT_CLIENT_ID; }
    return MEDPLUM_CLIENT_ID;
  }
  \<close>
\<close>

definition getClientId :: "browser \<Rightarrow> params \<Rightarrow> string \<Rightarrow> launch_error + string" where
  "getClientId env ps iss =
     (let clientId = params_get ps ''client_id''
      in if truthy clientId then Inr (null_str clientId)
         else case URL_hostname env iss of
                None \<Rightarrow> Inl (InvalidURL iss)
              | Some hostname \<Rightarrow>
                  let allowedHosts = [''smarthealthit.org'']
                  in if hostname \<in> set allowedHosts then Inr SMART_HEALTH_IT_CLIENT_ID
                     else Inr MEDPLUM_CLIENT_ID)"

text \<open>
  \<^verbatim>\<open>
  async function fetchSmartConfiguration(iss: string): Promise<SmartConfiguration> {
    if (iss.includes('medplum.com')) {
      return { authorization_endpoint: 'https://api.medplum.com/oauth2/authorize',
               token_endpoint: 'https://api.medplum.com/oauth2/token' };
    }
    const configUrl = `${iss}/.well-known/smart-configuration`;
    const response = await fetch(configUrl, { headers: { Accept: 'application/json' } });
    if (!response.ok) {
      throw new Error(`Failed to fetch SMART configuration from ${configUrl}: ...`);
    }
    return response.json();
  }
  \<close>
  The function returns the parsed document as it is; the model keeps the two members
  that the page reads from it later.
\<close>

definition fetchSmartConfiguration ::
    "browser \<Rightarrow> string \<Rightarrow> world \<Rightarrow> (launch_error + SmartConfiguration) \<times> world" where
  "fetchSmartConfiguration env iss w =
     (if str_includes iss ''medplum.com'' then
        (Inr \<lparr>authorization_endpoint = Some ''https://api.medplum.com/oauth2/authorize'',
              token_endpoint = Some ''https://api.medplum.com/oauth2/token''\<rparr>, w)
      else
        let configUrl = iss @ ''/.well-known/smart-configuration'';
            w1 = emit (Fetch (GET configUrl)) w
        in case fetch env (GET configUrl) of
             None \<Rightarrow> (Inl FetchRejected, w1)
           | Some response \<Rightarrow>
               if \<not> ok response then
                 (Inl (ConfigurationUnavailable configUrl (status response) (statusText response)), w1)
               else (case body_json response of
                       None \<Rightarrow> (Inl JsonSyntaxError, w1)
                     | Some doc \<Rightarrow>
                         (Inr \<lparr>authorization_endpoint = doc ''authorization_endpoint'',
                               token_endpoint = doc ''token_endpoint''\<rparr>, w1)))"

text \<open>
  \<^verbatim>\<open>
  async function initiateEhrLaunch(params: URLSearchParams): Promise<never> {
    const iss = params.get('iss');
    const launch = params.get('launch');
    if (!iss) { throw new Error('Missing iss parameter for EHR launch'); }
    sessionStorage.setItem('smart_iss', iss);
    const config = await fetchSmartConfiguration(iss);
    const state = crypto.randomUUID();
    sessionStorage.setItem('smart_state', state);
    const codeVerifier = generateCodeVerifier();
    const codeChallenge = await generateCodeChallenge(codeVerifier);
    sessionStorage.setItem('smart_code_verifier', codeVerifier);
    const clientId = getClientId(params, iss);
    const authParams = new URLSearchParams({ response_type: 'code', client_id: clientId,
      scope: FHIR_SCOPE, redirect_uri: window.location.origin + '/launch', state, aud: iss,
      launch: launch as string, code_challenge: codeChallenge, code_challenge_method: 'S256' });
    const url = new URL(config.authorization_endpoint);
    url.search = authParams.toString();
    window.location.href = url.toString();
    return new Promise(() => {});
  }
  \<close>
  The returned promise never resolves: the model returns \<open>Inr ()\<close> after the assignment
  to \<^verbatim>\<open>window.location.href\<close>, and nothing of the caller runs after it.
\<close>

definition initiateEhrLaunch :: "browser \<Rightarrow> params \<Rightarrow> world \<Rightarrow> (launch_error + unit) \<times> world" where
  "initiateEhrLaunch env ps w =
     (let iss_opt = params_get ps ''iss'';
          launch = params_get ps ''launch''
      in if \<not> truthy iss_opt then (Inl MissingLaunchParameters, w)
         else
           let iss = null_str iss_opt;
               w1 = setItem ''smart_iss'' iss w
           in (case fetchSmartConfiguration env iss w1 of
                 (Inl e, w2) \<Rightarrow> (Inl e, w2)
               | (Inr config, w2) \<Rightarrow>
                   let state = randomUUID (entropy env);
                       w3 = setItem ''smart_state'' state w2;
                       codeVerifier = generateCodeVerifier (entropy env);
                       codeChallenge = generateCodeChallenge codeVerifier;
                       w4 = setItem ''smart_code_verifier'' codeVerifier w3
                   in (case getClientId env ps iss of
                         Inl e \<Rightarrow> (Inl e, w4)
                       | Inr clientId \<Rightarrow>
                           let authParams =
                                 [(''response_type'', ''code''),
                                  (''client_id'', clientId),
                                  (''scope'', FHIR_SCOPE),
                                  (''redirect_uri'', location_origin env @ ''/launch''),
                                  (''state'', state),
                                  (''aud'', iss),
                                  (''launch'', null_str launch),
                                  (''code_challenge'', codeChallenge),
                                  (''code_challenge_method'', ''S256'')];
                               endpoint = undefined_str (authorization_endpoint config)
                           in (case URL_hostname env endpoint of
                                 None \<Rightarrow> (Inl (InvalidURL endpoint), w4)
                               | Some h \<Rightarrow> (Inr (), emit (Assign_href endpoint authParams) w4)))))"

text \<open>
  \<^verbatim>\<open>
  function validateAuthResponse(params: URLSearchParams): void {
    const code = params.get('code');
    const state = params.get('state');
    const storedState = sessionStorage.getItem('smart_state');
    const missing = [];
    if (!code) { missing.push('code'); }
    if (!state) { missing.push('state'); }
    if (missing.length > 0) {
      throw new Error(`Missing required parameters in authorization response: ...`);
    }
    if (state !== storedState) {
      throw new Error('State parameter mismatch - possible session expired. ...');
    }
  }
  \<close>
\<close>

definition validateAuthResponse :: "params \<Rightarrow> world \<Rightarrow> launch_error + unit" where
  "validateAuthResponse ps w =
     (let code = params_get ps ''code'';
          state = params_get ps ''state'';
          storedState = getItem w ''smart_state'';
          missing = (if \<not> truthy code then [''code''] else []) @
                    (if \<not> truthy state then [''state''] else [])
      in if length missing > 0 then Inl (MissingParameter missing)
         else if state \<noteq> storedState then Inl StateMismatch
         else Inr ())"

text \<open>
  \<^verbatim>\<open>
  async function exchangeCodeForToken(params, config, clientId): Promise<TokenResponse> {
    const code = params.get('code');
    const codeVerifier = sessionStorage.getItem('smart_code_verifier');
    if (!codeVerifier) { throw new Error('Missing code verifier - session may have expired'); }
    const tokenBody = new URLSearchParams({ grant_type: 'authorization_code',
      code: code as string, redirect_uri: window.location.origin + '/launch',
      client_id: clientId, code_verifier: codeVerifier });
    const tokenResponse = await fetch(config.token_endpoint, { method: 'POST', ...,
      body: tokenBody.toString() });
    if (!tokenResponse.ok) {
      const errorText = await tokenResponse.text();
      throw new Error(`Failed to get access token: ${tokenResponse.status} ${errorText}`);
    }
    return tokenResponse.json();
  }
  \<close>
\<close>

definition exchangeCodeForToken ::
    "browser \<Rightarrow> params \<Rightarrow> SmartConfiguration \<Rightarrow> string \<Rightarrow> world
       \<Rightarrow> (launch_error + TokenResponse) \<times> world" where
  "exchangeCodeForToken env ps config clientId w =
     (let code = params_get ps ''code'';
          codeVerifier = getItem w ''smart_code_verifier''
      in if \<not> truthy codeVerifier then (Inl ExpiredSession, w)
         else
           let tokenBody =
                 [(''grant_type'', ''authorization_code''),
                  (''code'', null_str code),
                  (''redirect_uri'', location_origin env @ ''/launch''),
                  (''client_id'', clientId),
                  (''code_verifier'', null_str codeVerifier)];
               req = POST (undefined_str (token_endpoint config)) tokenBody;
               w1 = emit (Fetch req) w
           in (case fetch env req of
                 None \<Rightarrow> (Inl FetchRejected, w1)
               | Some tokenResponse \<Rightarrow>
                   if \<not> ok tokenResponse then
                     (Inl (TokenExchangeFailed (status tokenResponse) (body_text tokenResponse)), w1)
                   else (case body_json tokenResponse of
                           None \<Rightarrow> (Inl JsonSyntaxError, w1)
                         | Some doc \<Rightarrow>
                             (Inr \<lparr>access_token = doc ''access_token'',
                                   patient = doc ''patient''\<rparr>, w1))))"

text \<open>
  \<^verbatim>\<open>
  function setupMedplumClient(tokenData, iss, medplumContext): void {
    sessionStorage.setItem('smart_patient', tokenData.patient);
    sessionStorage.setItem('smart_access_token', tokenData.access_token);
    sessionStorage.setItem('smart_base_url', iss);
    medplumContext.medplum = new MedplumClient({ baseUrl: iss, fhirUrlPath: '',
                                                 accessToken: tokenData.access_token });
  }
  \<close>
  The client is kept as the options it is constructed from; the constructor belongs to
  the SDK and is taken to return.
\<close>

definition setupMedplumClient :: "TokenResponse \<Rightarrow> string \<Rightarrow> world \<Rightarrow> world" where
  "setupMedplumClient tokenData iss w =
     (let w1 = setItem ''smart_patient'' (undefined_str (patient tokenData)) w;
          w2 = setItem ''smart_access_token'' (undefined_str (access_token tokenData)) w1;
          w3 = setItem ''smart_base_url'' iss w2
      in w3\<lparr>medplum := Some \<lparr>baseUrl = iss, fhirUrlPath = [],
                              accessToken = access_token tokenData\<rparr>\<rparr>)"

text \<open>
  The body of the \<^verbatim>\<open>try\<close> block of \<^verbatim>\<open>handleSmartLaunch\<close> (lines 220 to 282 of the
  launch page), case by case in the order of the source:
  \<^verbatim>\<open>
  const params = new URLSearchParams(window.location.search);
  const error = params.get('error');
  const errorDescription = params.get('error_description');
  if (error) { throw new Error(`OAuth error: ${error}${errorDescription ? ...}`); }
  const launch = params.get('launch');
  const code = params.get('code');
  if (!launch && !code) { navigate('/'); return; }
  const existingToken = sessionStorage.getItem('smart_access_token');
  const existingPatient = sessionStorage.getItem('smart_patient');
  if (existingToken && existingPatient && !launch && !code) { navigate('/patient'); return; }
  if (launch) { await initiateEhrLaunch(params); return; }
  validateAuthResponse(params);
  const iss = sessionStorage.getItem('smart_iss');
  if (!iss) { throw new Error('No issuer found in session storage'); }
  const config = await fetchSmartConfiguration(iss);
  const clientId = getClientId(params, iss);
  const tokenData = await exchangeCodeForToken(params, config, clientId);
  sessionStorage.removeItem('smart_state');
  sessionStorage.removeItem('smart_iss');
  sessionStorage.removeItem('smart_code_verifier');
  setupMedplumClient(tokenData, iss, medplumContext);
  hasInitialized.current = true;
  navigate('/patient')?.catch(console.error);
  \<close>
\<close>

definition handleSmartLaunch_try :: "browser \<Rightarrow> world \<Rightarrow> (launch_error + unit) \<times> world" where
  "handleSmartLaunch_try env w =
     (let ps = location_search env;
          err = params_get ps ''error'';
          errorDescription = params_get ps ''error_description''
      in if truthy err then (Inl (OAuthProviderError (null_str err) errorDescription), w)
         else
           let launch = params_get ps ''launch'';
               code = params_get ps ''code''
           in if \<not> truthy launch \<and> \<not> truthy code then (Inr (), emit (Navigate ''/'') w)
              else
                let existingToken = getItem w ''smart_access_token'';
                    existingPatient = getItem w ''smart_patient''
                in if truthy existingToken \<and> truthy existingPatient \<and> \<not> truthy launch \<and> \<not> truthy code
                   then (Inr (), emit (Navigate ''/patient'') w)
                   else if truthy launch then initiateEhrLaunch env ps w
                   else (case validateAuthResponse ps w of
                           Inl e \<Rightarrow> (Inl e, w)
                         | Inr u \<Rightarrow>
                             let iss_opt = getItem w ''smart_iss''
                             in if \<not> truthy iss_opt then (Inl NoIssuerInStorage, w)
                                else
                                  let iss = null_str iss_opt
                                  in (case fetchSmartConfiguration env iss w of
                                        (Inl e, w1) \<Rightarrow> (Inl e, w1)
                                      | (Inr config, w1) \<Rightarrow>
                                          (case getClientId env ps iss of
                                             Inl e \<Rightarrow> (Inl e, w1)
                                           | Inr clientId \<Rightarrow>
                                               (case exchangeCodeForToken env ps config clientId w1 of
                                                  (Inl e, w2) \<Rightarrow> (Inl e, w2)
                                                | (Inr tokenData, w2) \<Rightarrow>
                                                    let w3 = removeItem ''smart_state'' w2;
                                                        w4 = removeItem ''smart_iss'' w3;
                                                        w5 = removeItem ''smart_code_verifier'' w4;
                                                        w6 = setupMedplumClient tokenData iss w5;
                                                        w7 = w6\<lparr>hasInitialized := True\<rparr>
                                                    in (Inr (), emit (Navigate ''/patient'') w7))))))"

text \<open>
  \<^verbatim>\<open>
  try { ... } catch (err) { setError(err instanceof Error ? err.message : 'Unknown error'); }
  \<close>
  The changes made before the \<^verbatim>\<open>throw\<close> stay; the message becomes the state
  \<^verbatim>\<open>error\<close> of the component.
\<close>

definition handleSmartLaunch :: "browser \<Rightarrow> world \<Rightarrow> world" where
  "handleSmartLaunch env w =
     (case handleSmartLaunch_try env w of
        (Inl e, w') \<Rightarrow> w'\<lparr>error := Some (error_message e)\<rparr>
      | (Inr u, w') \<Rightarrow> w')"

text \<open>
  The effect of \<^verbatim>\<open>LaunchPage\<close>:
  \<^verbatim>\<open>
  useEffect(() => {
    if (hasInitialized.current) { return; }
    const handleSmartLaunch = async () => { ... };
    hasInitialized.current = true;
    handleSmartLaunch().catch(...);
  }, [navigate, medplumContext]);
  \<close>
  The ref is tested and set before the first \<^verbatim>\<open>await\<close> of the handler, so one
  invocation of the effect is one step: nothing else runs between the test and the
  assignment, and a second invocation that comes while the handler of the first is
  suspended at an \<^verbatim>\<open>await\<close> finds the ref set.  The handler catches every error
  itself, so the outer \<^verbatim>\<open>catch\<close> has nothing to do.
\<close>

definition LaunchPage_effect :: "browser \<Rightarrow> world \<Rightarrow> world" where
  "LaunchPage_effect env w =
     (if hasInitialized w then w
      else handleSmartLaunch env (w\<lparr>hasInitialized := True\<rparr>))"

text \<open>The mounted component at the start of a page load, over the tab's storage.\<close>

definition mount :: "(string \<rightharpoonup> string) \<Rightarrow> world" where
  "mount store = \<lparr>sessionStorage = store, events = [], hasInitialized = False,
                  error = None, medplum = None\<rparr>"

text \<open>The requests a page made to the token endpoint: its \<^verbatim>\<open>POST\<close> requests.\<close>

fun is_POST :: "event \<Rightarrow> bool" where
  "is_POST (Fetch (POST url body)) = True"
| "is_POST e = False"

definition token_posts :: "world \<Rightarrow> event list" where
  "token_posts w = filter is_POST (events w)"

section \<open>The home page (src/pages/HomePage.tsx)\<close>

text \<open>
  \<^verbatim>\<open>
  function SmartLaunch({ clientId, iss, children }: SmartLaunchProps): JSX.Element {
    const handleClick = (): void => {
      const params = new URLSearchParams({ response_type: 'code', client_id: clientId,
        scope: FHIR_SCOPE, redirect_uri: window.location.origin + '/launch',
        state: crypto.randomUUID(), aud: iss });
      window.location.href = `${iss}?${params.toString()}`;
    };
    return <div onClick={handleClick}>{children}</div>;
  }
  \<close>
\<close>

definition SmartLaunch_handleClick :: "browser \<Rightarrow> string \<Rightarrow> string \<Rightarrow> world \<Rightarrow> world" where
  "SmartLaunch_handleClick env clientId iss w =
     (let ps = [(''response_type'', ''code''),
                (''client_id'', clientId),
                (''scope'', FHIR_SCOPE),
                (''redirect_uri'', location_origin env @ ''/launch''),
                (''state'', randomUUID (entropy env)),
                (''aud'', iss)]
      in emit (Assign_href iss ps) w)"

section \<open>Observations and an example environment\<close>

text \<open>
  The query parameters of the last assignment to \<^verbatim>\<open>window.location.href\<close> and the
  body of the last \<^verbatim>\<open>POST\<close>, for reading single parameters off a run.
\<close>

fun redirect_query :: "event list \<Rightarrow> params" where
  "redirect_query [] = []"
| "redirect_query (Assign_href u ps # es) = (if redirect_query es = [] then ps else redirect_query es)"
| "redirect_query (e # es) = redirect_query es"

fun post_body :: "event list \<Rightarrow> params" where
  "post_body [] = []"
| "post_body (Fetch (POST u b) # es) = (if post_body es = [] then b else post_body es)"
| "post_body (e # es) = post_body es"

text \<open>
  A concrete browser for the examples: the app is served from
  \<^verbatim>\<open>https://app.example.org\<close>; the issuer \<^verbatim>\<open>https://ehr.example.org\<close> publishes a
  complete discovery document and its token endpoint answers with a token for patient
  \<^verbatim>\<open>pat1\<close>; the issuer \<^verbatim>\<open>https://bare.example.org\<close> publishes a document without
  endpoints; every other request is answered with an error status.  The random source
  yields zero bytes.
\<close>

definition demo_fetch :: "request \<Rightarrow> response option" where
  "demo_fetch r =
     (case r of
        GET u \<Rightarrow>
          if u = ''https://ehr.example.org/.well-known/smart-configuration''
          then Some \<lparr>status = 200, statusText = ''OK'', body_text = [],
                     body_json = Some [''authorization_endpoint'' \<mapsto> ''https://ehr.example.org/auth'',
                                       ''token_endpoint'' \<mapsto> ''https://ehr.example.org/token'']\<rparr>
          else if u = ''https://bare.example.org/.well-known/smart-configuration''
          then Some \<lparr>status = 200, statusText = ''OK'', body_text = [], body_json = Some Map.empty\<rparr>
          else Some \<lparr>status = 404, statusText = ''Not Found'', body_text = [], body_json = None\<rparr>
      | POST u b \<Rightarrow>
          if u = ''https://ehr.example.org/token''
          then Some \<lparr>status = 200, statusText = ''OK'', body_text = [],
                     body_json = Some [''access_token'' \<mapsto> ''tok1'', ''patient'' \<mapsto> ''pat1'']\<rparr>
          else Some \<lparr>status = 400, statusText = ''Bad Request'', body_text = ''invalid_grant'',
                     body_json = None\<rparr>)"

definition demo_hostname :: "string \<Rightarrow> string option" where
  "demo_hostname s =
     (if s = ''https://ehr.example.org'' \<or> s = ''https://ehr.example.org/auth''
      then Some ''ehr.example.org'' else None)"

definition demo_browser :: "params \<Rightarrow> browser" where
  "demo_browser q = \<lparr>location_search = q, location_origin = ''https://app.example.org'',
                      fetch = demo_fetch, URL_hostname = demo_hostname, entropy = (\<lambda>i. 0)\<rparr>"

text \<open>A store in the middle of a handshake with that issuer.\<close>

definition demo_store :: "string \<rightharpoonup> string" where
  "demo_store = [''smart_iss'' \<mapsto> ''https://ehr.example.org'', ''smart_state'' \<mapsto> ''s1'',
                 ''smart_code_verifier'' \<mapsto> ''v1'']"

section \<open>Properties of the encoders\<close>

lemmas js_defs = params_get_def truthy_def null_str_def undefined_str_def
lemmas store_defs = getItem_def setItem_def removeItem_def emit_def mount_def
lemmas demo_defs = demo_fetch_def demo_hostname_def demo_browser_def demo_store_def
lemmas page_defs = LaunchPage_effect_def handleSmartLaunch_def handleSmartLaunch_try_def
  validateAuthResponse_def exchangeCodeForToken_def fetchSmartConfiguration_def getClientId_def
  setupMedplumClient_def initiateEhrLaunch_def ok_def token_posts_def

lemma sextets_bound: "n \<in> set (sextets bs) \<Longrightarrow> n < 64"
proof (induction bs arbitrary: n rule: sextets.induct)
  case (1 a b c bs)
  have "unat a < 256" "unat b < 256" "unat c < 256"
    using unsigned_less [of a] unsigned_less [of b] unsigned_less [of c] by simp_all
  with 1 show ?case by auto
next
  case (2 a b)
  have "unat a < 256" "unat b < 256"
    using unsigned_less [of a] unsigned_less [of b] by simp_all
  with 2 show ?case by auto
next
  case (3 a)
  have "unat a < 256" using unsigned_less [of a] by simp
  with 3 show ?case by auto
next
  case 4
  then show ?case by simp
qed

lemma length_sextets: "length (sextets bs) = (8 * length bs + 5) div 6"
  by (induction bs rule: sextets.induct) simp_all

lemma length_base64_alphabet: "length base64_alphabet = 64"
  by (simp add: base64_alphabet_def)

lemma length_base64url_alphabet: "length base64url_alphabet = 64"
  by (simp add: base64url_alphabet_def)

text \<open>The two replacements turn the standard alphabet into the URL-safe one.\<close>

lemma alphabet_replaced:
  "replace_all (CHR ''/'') (CHR ''_'') (replace_all (CHR ''+'') (CHR ''-'') base64_alphabet)
     = base64url_alphabet"
  by (simp add: replace_all_def base64_alphabet_def base64url_alphabet_def)

lemma base64url_alphabet_safe:
  "CHR ''+'' \<notin> set base64url_alphabet" "CHR ''/'' \<notin> set base64url_alphabet"
  "CHR ''='' \<notin> set base64url_alphabet"
  by (simp_all add: base64url_alphabet_def)

lemma replaced_nth:
  assumes "n < 64"
  shows "(if (if base64_alphabet ! n = CHR ''+'' then CHR ''-'' else base64_alphabet ! n) = CHR ''/''
          then CHR ''_''
          else (if base64_alphabet ! n = CHR ''+'' then CHR ''-'' else base64_alphabet ! n))
         = base64url_alphabet ! n"
proof -
  have "replace_all (CHR ''/'') (CHR ''_'') (replace_all (CHR ''+'') (CHR ''-'') base64_alphabet) ! n
          = base64url_alphabet ! n"
    by (simp only: alphabet_replaced)
  then show ?thesis
    using assms by (simp add: replace_all_def length_base64_alphabet)
qed

lemma base64url_nth_safe:
  assumes "n < 64"
  shows "base64url_alphabet ! n \<noteq> CHR ''=''" "base64url_alphabet ! n \<noteq> CHR ''+''"
        "base64url_alphabet ! n \<noteq> CHR ''/''"
proof -
  have "base64url_alphabet ! n \<in> set base64url_alphabet"
    using assms by (simp add: length_base64url_alphabet)
  then show "base64url_alphabet ! n \<noteq> CHR ''=''" "base64url_alphabet ! n \<noteq> CHR ''+''"
        "base64url_alphabet ! n \<noteq> CHR ''/''"
    using base64url_alphabet_safe by metis+
qed

text \<open>
  Refinement: \<^verbatim>\<open>btoa\<close> followed by the three replacements is the unpadded URL-safe
  encoding.  The padding is the only place where \<^verbatim>\<open>=\<close> occurs, so removing every
  \<^verbatim>\<open>=\<close> removes the padding and nothing else.
\<close>

lemma base64UrlEncode_refines: "base64UrlEncode bs = base64url_unpadded bs"
proof -
  have body: "filter (\<lambda>x. x \<noteq> CHR ''='') (map (\<lambda>x. if x = CHR ''/'' then CHR ''_'' else x)
                 (map (\<lambda>x. if x = CHR ''+'' then CHR ''-'' else x)
                    (map (\<lambda>n. base64_alphabet ! n) ns)))
              = map (\<lambda>n. base64url_alphabet ! n) ns"
    if "\<And>n. n \<in> set ns \<Longrightarrow> n < 64" for ns
    using that
  proof (induction ns)
    case Nil
    then show ?case by simp
  next
    case (Cons n ns)
    then have n: "n < 64" by simp
    from Cons have IH: "filter (\<lambda>x. x \<noteq> CHR ''='') (map (\<lambda>x. if x = CHR ''/'' then CHR ''_'' else x)
                 (map (\<lambda>x. if x = CHR ''+'' then CHR ''-'' else x)
                    (map (\<lambda>n. base64_alphabet ! n) ns)))
              = map (\<lambda>n. base64url_alphabet ! n) ns" by simp
    show ?case
      using replaced_nth [OF n] base64url_nth_safe(1) [OF n] IH by simp
  qed
  have pad: "filter (\<lambda>x. x \<noteq> CHR ''='') (map (\<lambda>x. if x = CHR ''/'' then CHR ''_'' else x)
                 (map (\<lambda>x. if x = CHR ''+'' then CHR ''-'' else x) (replicate k (CHR ''=''))))
              = []" for k
    by simp
  show ?thesis
    unfolding base64UrlEncode_def btoa_def replace_all_def remove_all_def base64url_unpadded_def Let_def
    using body [OF sextets_bound, of "sextets bs" ] pad
    by (simp only: map_append filter_append append_Nil2)
qed

lemma length_base64UrlEncode: "length (base64UrlEncode bs) = (8 * length bs + 5) div 6"
  by (simp add: base64UrlEncode_refines base64url_unpadded_def length_sextets)

lemma base64UrlEncode_safe:
  "CHR ''+'' \<notin> set (base64UrlEncode bs)" "CHR ''/'' \<notin> set (base64UrlEncode bs)"
  "CHR ''='' \<notin> set (base64UrlEncode bs)"
proof -
  have "c \<noteq> CHR ''+'' \<and> c \<noteq> CHR ''/'' \<and> c \<noteq> CHR ''=''" if "c \<in> set (base64UrlEncode bs)" for c
  proof -
    from that obtain n where "n \<in> set (sextets bs)" and c: "c = base64url_alphabet ! n"
      by (auto simp: base64UrlEncode_refines base64url_unpadded_def)
    then have "n < 64" by (simp add: sextets_bound)
    then show ?thesis using base64url_nth_safe c by simp
  qed
  then show "CHR ''+'' \<notin> set (base64UrlEncode bs)" "CHR ''/'' \<notin> set (base64UrlEncode bs)"
    "CHR ''='' \<notin> set (base64UrlEncode bs)"
    by blast+
qed

lemma length_digest_bytes: "length (digest_bytes hs) = 32"
  by (cases hs rule: digest_bytes.cases) (simp add: bytes_of_def)

lemma length_sha256: "length (sha256 m) = 32"
  by (simp add: sha256_def Let_def length_digest_bytes)

lemma length_generateCodeChallenge: "length (generateCodeChallenge v) = 43"
  by (simp add: generateCodeChallenge_def Let_def length_base64UrlEncode length_sha256)

lemma length_generateCodeVerifier: "length (generateCodeVerifier e) = 43"
  by (simp add: generateCodeVerifier_def getRandomValues_def length_base64UrlEncode)

lemma randomUUID_length: "length (randomUUID e) = 36"
  by (simp add: randomUUID_def hex_byte_def)

lemma randomUUID_nonempty [simp]: "randomUUID e \<noteq> []"
  using randomUUID_length [of e] by auto

lemma generateCodeVerifier_nonempty [simp]: "generateCodeVerifier e \<noteq> []"
  using length_generateCodeVerifier [of e] by auto

lemma randomUUID_zero: "randomUUID (\<lambda>i. 0) = ''00000000-0000-4000-8000-000000000000''"
  by (simp add: randomUUID_def hex_byte_def)

text \<open>
  Test vectors: the verifier of RFC 7636, appendix B, and the one-block and two-block
  messages of FIPS 180-4, each as the digest and as its encoding.
\<close>

lemma rfc7636_digest:
  "sha256 (TextEncoder_encode ''dBjftJeZ4CVP-mB92K27uhbUJU1p1r_wW1gFWFOEjXk'') =
     [19, 211, 30, 150, 26, 26, 216, 236, 47, 22, 177, 12, 76, 152, 46, 8,
      118, 168, 120, 173, 109, 241, 68, 86, 110, 225, 137, 74, 203, 112, 249, 195]"
  by code_simp

lemma rfc7636_encoding:
  "base64UrlEncode [19, 211, 30, 150, 26, 26, 216, 236, 47, 22, 177, 12, 76, 152, 46, 8,
      118, 168, 120, 173, 109, 241, 68, 86, 110, 225, 137, 74, 203, 112, 249, 195]
   = ''E9Melhoa2OwvFrEMTJguCHaoeK1t8URWbuGJSstw-cM''"
  by code_simp

lemma fips180_abc_digest:
  "sha256 (TextEncoder_encode ''abc'') =
     [186, 120, 22, 191, 143, 1, 207, 234, 65, 65, 64, 222, 93, 174, 34, 35,
      176, 3, 97, 163, 150, 23, 122, 156, 180, 16, 255, 97, 242, 0, 21, 173]"
  by code_simp

lemma fips180_abc_encoding:
  "base64UrlEncode [186, 120, 22, 191, 143, 1, 207, 234, 65, 65, 64, 222, 93, 174, 34, 35,
      176, 3, 97, 163, 150, 23, 122, 156, 180, 16, 255, 97, 242, 0, 21, 173]
   = ''ungWv48Bz-pBQUDeXa4iI7ADYaOWF3qctBD_YfIAFa0''"
  by code_simp

lemma fips180_two_block_digest:
  "sha256 (TextEncoder_encode ''abcdbcdecdefdefgefghfghighijhijkijkljklmklmnlmnomnopnopq'') =
     [36, 141, 106, 97, 210, 6, 56, 184, 229, 192, 38, 147, 12, 62, 96, 57,
      163, 60, 228, 89, 100, 255, 33, 103, 246, 236, 237, 212, 25, 219, 6, 193]"
  by code_simp

lemma fips180_two_block_encoding:
  "base64UrlEncode [36, 141, 106, 97, 210, 6, 56, 184, 229, 192, 38, 147, 12, 62, 96, 57,
      163, 60, 228, 89, 100, 255, 33, 103, 246, 236, 237, 212, 25, 219, 6, 193]
   = ''JI1qYdIGOLjlwCaTDD5gOaM85Flk_yFn9uzt1BnbBsE''"
  by code_simp

section \<open>Properties of the launch sequence\<close>

text \<open>The resolver leaves the store alone; it appends at most its one GET.\<close>

lemma fetchSmartConfiguration_world:
  "fetchSmartConfiguration env iss w = (r, w') \<Longrightarrow>
     sessionStorage w' = sessionStorage w \<and> token_posts w' = token_posts w \<and>
     hasInitialized w' = hasInitialized w \<and>
     (w' = w \<or> w' = emit (Fetch (GET (iss @ ''/.well-known/smart-configuration''))) w)"
  by (auto simp: fetchSmartConfiguration_def Let_def emit_def token_posts_def
           split: if_splits option.splits)

lemma initiateEhrLaunch_no_post:
  "initiateEhrLaunch env ps w = (r, w') \<Longrightarrow> token_posts w' = token_posts w"
  unfolding initiateEhrLaunch_def Let_def
  by (auto simp: setItem_def emit_def token_posts_def
           split: if_splits prod.splits sum.splits option.splits
           dest!: fetchSmartConfiguration_world)

lemma initiateEhrLaunch_posts [simp]:
  "token_posts (snd (initiateEhrLaunch env ps w)) = token_posts w"
  using initiateEhrLaunch_no_post [of env ps w] by (cases "initiateEhrLaunch env ps w") simp

lemma validateAuthResponse_mismatch:
  "params_get ps ''state'' \<noteq> sessionStorage w ''smart_state'' \<Longrightarrow>
     \<exists>e. validateAuthResponse ps w = Inl e"
  by (auto simp: validateAuthResponse_def Let_def getItem_def)















section \<open>The claims\<close>

text \<open>
  A page load is \<^term>\<open>LaunchPage_effect env (mount store)\<close>: the launch page is mounted
  over the tab's store and its effect runs in the browser \<open>env\<close>.  A callback is a
  page load without \<^verbatim>\<open>error\<close> and \<^verbatim>\<open>launch\<close> parameters and with a \<^verbatim>\<open>code\<close>.
\<close>




text \<open>
  Claim C2.  A page load whose \<^verbatim>\<open>state\<close> query parameter differs from the value stored
  under \<^verbatim>\<open>smart_state\<close> sends no \<^verbatim>\<open>POST\<close>: the token exchange is not reached.  When the
  page load is a callback (no \<^verbatim>\<open>error\<close> and no \<^verbatim>\<open>launch\<close> parameter, \<^verbatim>\<open>code\<close> and
  \<^verbatim>\<open>state\<close> present), it fails with the state-mismatch error and changes nothing
  else: no request is made and the store is as before.
\<close>

theorem state_mismatch_no_exchange:
  assumes differs: "params_get (location_search env) ''state'' \<noteq> sessionStorage w ''smart_state''"
  shows "token_posts (handleSmartLaunch env w) = token_posts w \<and>
         (\<not> truthy (params_get (location_search env) ''error'') \<and>
          \<not> truthy (params_get (location_search env) ''launch'') \<and>
          truthy (params_get (location_search env) ''code'') \<and>
          truthy (params_get (location_search env) ''state'')
          \<longrightarrow> handleSmartLaunch_try env w = (Inl StateMismatch, w) \<and>
              handleSmartLaunch env w = w\<lparr>error := Some (error_message StateMismatch)\<rparr>)"
proof -
  obtain e where e: "validateAuthResponse (location_search env) w = Inl e"
    using validateAuthResponse_mismatch [OF differs] by blast
  have posts: "token_posts (snd (handleSmartLaunch_try env w)) = token_posts w"
    using e
    using initiateEhrLaunch_posts [of env "location_search env" w]
    by (auto simp: handleSmartLaunch_try_def Let_def emit_def token_posts_def)
  have "token_posts (handleSmartLaunch env w) = token_posts w"
    using posts by (auto simp: handleSmartLaunch_def token_posts_def split: prod.splits sum.splits)
  moreover have "handleSmartLaunch_try env w = (Inl StateMismatch, w)"
    if "\<not> truthy (params_get (location_search env) ''error'')"
       "\<not> truthy (params_get (location_search env) ''launch'')"
       "truthy (params_get (location_search env) ''code'')"
       "truthy (params_get (location_search env) ''state'')"
    using that differs
    by (simp add: handleSmartLaunch_try_def validateAuthResponse_def getItem_def Let_def)
  ultimately show ?thesis
    by (simp add: handleSmartLaunch_def)
qed

text \<open>
  Claim C2, at a concrete callback: the store holds the state \<^verbatim>\<open>s1\<close>, the callback
  carries the state \<^verbatim>\<open>forged\<close>.
\<close>

theorem state_mismatch_no_exchange_witness:
  "params_get (location_search (demo_browser [(''code'', ''c1''), (''state'', ''forged'')])) ''state''
     \<noteq> sessionStorage (mount demo_store) ''smart_state'' \<and>
   token_posts (handleSmartLaunch (demo_browser [(''code'', ''c1''), (''state'', ''forged'')])
                  (mount demo_store)) = [] \<and>
   handleSmartLaunch_try (demo_browser [(''code'', ''c1''), (''state'', ''forged'')]) (mount demo_store)
     = (Inl StateMismatch, mount demo_store)"
  using state_mismatch_no_exchange
          [of "demo_browser [(''code'', ''c1''), (''state'', ''forged'')]" "mount demo_store"]
  by (simp add: demo_defs js_defs store_defs token_posts_def)



text \<open>
  Claim C4.  A page load without \<^verbatim>\<open>launch\<close> and \<^verbatim>\<open>code\<close>, over a store that holds a
  prior session (\<^verbatim>\<open>smart_access_token\<close> and \<^verbatim>\<open>smart_patient\<close>): the page navigates
  to the home view \<^verbatim>\<open>/\<close>, not to \<^verbatim>\<open>/patient\<close>.  The early return for missing launch
  parameters comes before the test for an existing session, which asks for the same
  missing parameters again and so is never taken.
\<close>

theorem existing_session_goes_home:
  "events (LaunchPage_effect (demo_browser [])
     (mount [''smart_access_token'' \<mapsto> ''tok1'', ''smart_patient'' \<mapsto> ''pat1''])) = [Navigate ''/'']"
  by (simp add: page_defs demo_defs js_defs store_defs)

text \<open>
  Claim C5, as stated, fails: the issuer \<^verbatim>\<open>https://bare.example.org\<close> answers the
  discovery request with status 200 and a JSON object without endpoints, and the
  resolver returns that incomplete configuration instead of an error.
\<close>

theorem incomplete_configuration_returned:
  "fetchSmartConfiguration (demo_browser []) ''https://bare.example.org'' (mount Map.empty) =
     (Inr \<lparr>authorization_endpoint = None, token_endpoint = None\<rparr>,
      emit (Fetch (GET ''https://bare.example.org/.well-known/smart-configuration'')) (mount Map.empty))"
  by (simp add: fetchSmartConfiguration_def demo_defs ok_def)

text \<open>
  Claim C5, amended.  For an issuer that is resolved by discovery: a response with a
  non-success status makes the resolution fail with the configuration-unavailable error,
  which carries the URL, the status and the status text; a successful response that
  parses is returned as it is, with whatever endpoints it has or lacks.
\<close>

theorem discovery_result:
  assumes "\<not> str_includes iss ''medplum.com''"
      and "fetch env (GET (iss @ ''/.well-known/smart-configuration'')) = Some r"
  shows "(\<not> ok r \<longrightarrow>
            fst (fetchSmartConfiguration env iss w) =
              Inl (ConfigurationUnavailable (iss @ ''/.well-known/smart-configuration'')
                     (status r) (statusText r))) \<and>
         (ok r \<and> body_json r = Some doc \<longrightarrow>
            fst (fetchSmartConfiguration env iss w) =
              Inr \<lparr>authorization_endpoint = doc ''authorization_endpoint'',
                   token_endpoint = doc ''token_endpoint''\<rparr>)"
  using assms by (simp add: fetchSmartConfiguration_def Let_def)

text \<open>
  Claim C5, amended, at two concrete issuers of the example browser: one that answers the
  discovery request with status 404, and one that answers with a JSON object without
  endpoints.
\<close>

theorem discovery_result_witness:
  "\<not> str_includes ''https://bare.example.org'' ''medplum.com'' \<and>
   \<not> str_includes ''https://down.example.org'' ''medplum.com'' \<and>
   fst (fetchSmartConfiguration (demo_browser []) ''https://down.example.org'' (mount Map.empty)) =
     Inl (ConfigurationUnavailable ''https://down.example.org/.well-known/smart-configuration''
            404 ''Not Found'') \<and>
   fst (fetchSmartConfiguration (demo_browser []) ''https://bare.example.org'' (mount Map.empty)) =
     Inr \<lparr>authorization_endpoint = None, token_endpoint = None\<rparr>"
  using discovery_result [of "''https://down.example.org''" "demo_browser []"
          "\<lparr>status = 404, statusText = ''Not Found'', body_text = [], body_json = None\<rparr>"
          "mount Map.empty" Map.empty]
        discovery_result [of "''https://bare.example.org''" "demo_browser []"
          "\<lparr>status = 200, statusText = ''OK'', body_text = [], body_json = Some Map.empty\<rparr>"
          "mount Map.empty" Map.empty]
  by (simp add: demo_defs ok_def)

text \<open>
  Claim C6.  The issuer \<^verbatim>\<open>https://ehr.example.org/medplum.com\<close> has the hostname
  \<^verbatim>\<open>ehr.example.org\<close>, and the issuer \<^verbatim>\<open>https://medplum.com.example.org\<close> is a host
  of the domain \<^verbatim>\<open>example.org\<close>; yet both are resolved to the hardcoded Medplum
  endpoints and no discovery request is made, whatever the browser and the state: the
  test is for the substring \<^verbatim>\<open>medplum.com\<close> anywhere in the issuer string.
\<close>

theorem medplum_substring_bypasses_discovery:
  "fetchSmartConfiguration env ''https://ehr.example.org/medplum.com'' w =
     (Inr \<lparr>authorization_endpoint = Some ''https://api.medplum.com/oauth2/authorize'',
           token_endpoint = Some ''https://api.medplum.com/oauth2/token''\<rparr>, w) \<and>
   fetchSmartConfiguration env ''https://medplum.com.example.org'' w =
     (Inr \<lparr>authorization_endpoint = Some ''https://api.medplum.com/oauth2/authorize'',
           token_endpoint = Some ''https://api.medplum.com/oauth2/token''\<rparr>, w)"
  by (simp add: fetchSmartConfiguration_def)

text \<open>
  Claim C7.  A handshake whose initiation request carries \<^verbatim>\<open>client_id=my-app\<close>: the
  authorization redirect carries \<^verbatim>\<open>my-app\<close>; the callback request has no
  \<^verbatim>\<open>client_id\<close> parameter, so the token request of the same handshake carries the
  default Medplum client id.
\<close>

theorem explicit_client_id_lost_at_callback:
  "params_get (redirect_query (events (LaunchPage_effect
       (demo_browser [(''launch'', ''abc123''), (''iss'', ''https://ehr.example.org''),
                      (''client_id'', ''my-app'')])
       (mount Map.empty)))) ''client_id'' = Some ''my-app'' \<and>
   params_get (post_body (events (LaunchPage_effect
       (demo_browser [(''code'', ''c1''), (''state'', ''00000000-0000-4000-8000-000000000000'')])
       (mount (sessionStorage (LaunchPage_effect
          (demo_browser [(''launch'', ''abc123''), (''iss'', ''https://ehr.example.org''),
                         (''client_id'', ''my-app'')])
          (mount Map.empty))))))) ''client_id'' = Some ''d68a6a98-d5ea-4e1b-9dff-ae215249179f''"
  by (simp add: page_defs demo_defs js_defs store_defs Let_def randomUUID_zero
        MEDPLUM_CLIENT_ID_def)

text \<open>
  Claim C8.  The page is loaded with \<^verbatim>\<open>launch=abc123&iss=https://ehr.example.org\<close>,
  the issuer's discovery document is served and names an authorization endpoint, and the
  URL parser accepts the issuer and the endpoint.  Then the page requests the discovery
  document and assigns to \<^verbatim>\<open>window.location.href\<close> the endpoint with a query that
  contains \<^verbatim>\<open>response_type=code\<close>, \<^verbatim>\<open>aud=https://ehr.example.org\<close>,
  \<^verbatim>\<open>launch=abc123\<close>, \<^verbatim>\<open>code_challenge_method=S256\<close> and a \<^verbatim>\<open>code_challenge\<close> of
  43 characters, the unpadded URL-safe base64 of the SHA-256 of the verifier; the store
  holds \<^verbatim>\<open>smart_iss=https://ehr.example.org\<close>, a non-empty \<^verbatim>\<open>smart_state\<close> (the
  \<^verbatim>\<open>state\<close> of the query) and a non-empty \<^verbatim>\<open>smart_code_verifier\<close>.
\<close>

theorem ehr_launch_redirect:
  assumes q: "location_search env = [(''launch'', ''abc123''), (''iss'', ''https://ehr.example.org'')]"
      and disc: "fetch env (GET ''https://ehr.example.org/.well-known/smart-configuration'') = Some r"
                "ok r" "body_json r = Some doc" "doc ''authorization_endpoint'' = Some ep"
      and urls: "URL_hostname env ''https://ehr.example.org'' = Some h" "URL_hostname env ep = Some h'"
  shows "\<exists>ps c v s.
           events (LaunchPage_effect env (mount store)) =
             [Fetch (GET ''https://ehr.example.org/.well-known/smart-configuration''),
              Assign_href ep ps] \<and>
           params_get ps ''response_type'' = Some ''code'' \<and>
           params_get ps ''aud'' = Some ''https://ehr.example.org'' \<and>
           params_get ps ''launch'' = Some ''abc123'' \<and>
           params_get ps ''code_challenge'' = Some c \<and> length c = 43 \<and>
           c = base64url_unpadded (sha256 (TextEncoder_encode v)) \<and>
           params_get ps ''code_challenge_method'' = Some ''S256'' \<and>
           params_get ps ''state'' = Some s \<and>
           sessionStorage (LaunchPage_effect env (mount store)) ''smart_iss''
             = Some ''https://ehr.example.org'' \<and>
           sessionStorage (LaunchPage_effect env (mount store)) ''smart_state'' = Some s \<and> s \<noteq> [] \<and>
           sessionStorage (LaunchPage_effect env (mount store)) ''smart_code_verifier'' = Some v \<and>
           v \<noteq> [] \<and>
           error (LaunchPage_effect env (mount store)) = None"
proof -
  have nomed: "\<not> str_includes ''https://ehr.example.org'' ''medplum.com''"
    by simp
  have cfg: "fetchSmartConfiguration env ''https://ehr.example.org'' w =
      (Inr \<lparr>authorization_endpoint = Some ep, token_endpoint = doc ''token_endpoint''\<rparr>,
       emit (Fetch (GET ''https://ehr.example.org/.well-known/smart-configuration'')) w)" for w
    using disc nomed by (simp add: fetchSmartConfiguration_def)
  have cid: "\<exists>clientId. getClientId env (location_search env) ''https://ehr.example.org'' = Inr clientId"
    using q urls(1) by (simp add: getClientId_def js_defs Let_def)
  then obtain clientId where
    cid': "getClientId env [(''launch'', ''abc123''), (''iss'', ''https://ehr.example.org'')]
             ''https://ehr.example.org'' = Inr clientId"
    using q by auto
  have ch: "generateCodeChallenge x = base64url_unpadded (sha256 (TextEncoder_encode x))" for x
    by (simp add: generateCodeChallenge_def Let_def base64UrlEncode_refines)
  show ?thesis
    using q cfg cid' urls(2) length_generateCodeChallenge [of "generateCodeVerifier (entropy env)"]
      ch [of "generateCodeVerifier (entropy env)"]
    by (simp add: LaunchPage_effect_def handleSmartLaunch_def handleSmartLaunch_try_def
          initiateEhrLaunch_def js_defs store_defs Let_def)
qed

text \<open>Claim C8, in the example browser with an empty store.\<close>

theorem ehr_launch_redirect_witness:
  "location_search (demo_browser [(''launch'', ''abc123''), (''iss'', ''https://ehr.example.org'')])
     = [(''launch'', ''abc123''), (''iss'', ''https://ehr.example.org'')] \<and>
   (\<exists>ps c v s.
      events (LaunchPage_effect
                (demo_browser [(''launch'', ''abc123''), (''iss'', ''https://ehr.example.org'')])
                (mount Map.empty)) =
        [Fetch (GET ''https://ehr.example.org/.well-known/smart-configuration''),
         Assign_href ''https://ehr.example.org/auth'' ps] \<and>
      params_get ps ''response_type'' = Some ''code'' \<and>
      params_get ps ''aud'' = Some ''https://ehr.example.org'' \<and>
      params_get ps ''launch'' = Some ''abc123'' \<and>
      params_get ps ''code_challenge'' = Some c \<and> length c = 43 \<and>
      c = base64url_unpadded (sha256 (TextEncoder_encode v)) \<and>
      params_get ps ''code_challenge_method'' = Some ''S256'' \<and>
      params_get ps ''state'' = Some s \<and>
      sessionStorage (LaunchPage_effect
                (demo_browser [(''launch'', ''abc123''), (''iss'', ''https://ehr.example.org'')])
                (mount Map.empty)) ''smart_iss'' = Some ''https://ehr.example.org'' \<and>
      sessionStorage (LaunchPage_effect
                (demo_browser [(''launch'', ''abc123''), (''iss'', ''https://ehr.example.org'')])
                (mount Map.empty)) ''smart_state'' = Some s \<and> s \<noteq> [] \<and>
      sessionStorage (LaunchPage_effect
                (demo_browser [(''launch'', ''abc123''), (''iss'', ''https://ehr.example.org'')])
                (mount Map.empty)) ''smart_code_verifier'' = Some v \<and> v \<noteq> [] \<and>
      error (LaunchPage_effect
                (demo_browser [(''launch'', ''abc123''), (''iss'', ''https://ehr.example.org'')])
                (mount Map.empty)) = None)"
proof -
  let ?env = "demo_browser [(''launch'', ''abc123''), (''iss'', ''https://ehr.example.org'')]"
  let ?r = "\<lparr>status = 200, statusText = ''OK'', body_text = [],
             body_json = Some [''authorization_endpoint'' \<mapsto> ''https://ehr.example.org/auth'',
                               ''token_endpoint'' \<mapsto> ''https://ehr.example.org/token'']\<rparr>"
  have q: "location_search ?env = [(''launch'', ''abc123''), (''iss'', ''https://ehr.example.org'')]"
    by (simp add: demo_browser_def)
  have f: "fetch ?env (GET ''https://ehr.example.org/.well-known/smart-configuration'') = Some ?r"
    by (simp add: demo_defs)
  have r: "ok ?r" "body_json ?r = Some [''authorization_endpoint'' \<mapsto> ''https://ehr.example.org/auth'',
                               ''token_endpoint'' \<mapsto> ''https://ehr.example.org/token'']"
    "[''authorization_endpoint'' \<mapsto> ''https://ehr.example.org/auth'',
      ''token_endpoint'' \<mapsto> ''https://ehr.example.org/token''] ''authorization_endpoint''
       = Some ''https://ehr.example.org/auth''"
    by (simp_all add: ok_def)
  have u: "URL_hostname ?env ''https://ehr.example.org'' = Some ''ehr.example.org''"
    "URL_hostname ?env ''https://ehr.example.org/auth'' = Some ''ehr.example.org''"
    by (simp_all add: demo_defs)
  show ?thesis
    using ehr_launch_redirect [OF q f r u, of Map.empty] q by blast
qed

text \<open>
  Claim C9.  \<^verbatim>\<open>generateCodeChallenge\<close> is a function of the verifier alone: it reads
  neither the browser nor the store, so two calls on one verifier give one result.  Its
  result is the unpadded URL-safe base64 encoding of the SHA-256 digest of the verifier,
  has 43 characters, none of them \<^verbatim>\<open>+\<close>, \<^verbatim>\<open>/\<close> or \<^verbatim>\<open>=\<close>, and agrees with the
  test vectors.
\<close>

theorem code_challenge_is_base64url_sha256:
  "generateCodeChallenge v = base64url_unpadded (sha256 (TextEncoder_encode v)) \<and>
   length (generateCodeChallenge v) = 43 \<and>
   CHR ''+'' \<notin> set (generateCodeChallenge v) \<and>
   CHR ''/'' \<notin> set (generateCodeChallenge v) \<and>
   CHR ''='' \<notin> set (generateCodeChallenge v) \<and>
   generateCodeChallenge ''dBjftJeZ4CVP-mB92K27uhbUJU1p1r_wW1gFWFOEjXk''
     = ''E9Melhoa2OwvFrEMTJguCHaoeK1t8URWbuGJSstw-cM'' \<and>
   generateCodeChallenge ''abc'' = ''ungWv48Bz-pBQUDeXa4iI7ADYaOWF3qctBD_YfIAFa0'' \<and>
   generateCodeChallenge ''abcdbcdecdefdefgefghfghighijhijkijkljklmklmnlmnomnopnopq''
     = ''JI1qYdIGOLjlwCaTDD5gOaM85Flk_yFn9uzt1BnbBsE''"
proof -
  have "generateCodeChallenge v = base64UrlEncode (sha256 (TextEncoder_encode v))" for v
    by (simp add: generateCodeChallenge_def Let_def)
  then show ?thesis
    using base64UrlEncode_safe [of "sha256 (TextEncoder_encode v)"]
    by (simp add: length_base64UrlEncode length_sha256 base64UrlEncode_refines [symmetric]
          rfc7636_digest rfc7636_encoding fips180_abc_digest fips180_abc_encoding
          fips180_two_block_digest fips180_two_block_encoding)
qed

text \<open>
  Claim C10.  A click on a \<^verbatim>\<open>SmartLaunch\<close> button of the home page leaves the store
  as it is and assigns to \<^verbatim>\<open>window.location.href\<close> a URL whose query has a fresh
  \<^verbatim>\<open>state\<close> and no \<^verbatim>\<open>code_challenge\<close>.  When the store holds no \<^verbatim>\<open>smart_state\<close>,
  a callback that brings a \<^verbatim>\<open>code\<close> and that \<^verbatim>\<open>state\<close> back fails with the
  state-mismatch error; no request is made and the store stays as it is.
\<close>

theorem standalone_launch_fails_state_check:
  assumes "sessionStorage w ''smart_state'' = None"
      and "\<not> truthy (params_get (location_search env') ''error'')"
      and "\<not> truthy (params_get (location_search env') ''launch'')"
      and "truthy (params_get (location_search env') ''code'')"
      and "params_get (location_search env') ''state''
             = params_get (redirect_query (events (SmartLaunch_handleClick env clientId iss w))) ''state''"
  shows "sessionStorage (SmartLaunch_handleClick env clientId iss w) = sessionStorage w \<and>
         events (SmartLaunch_handleClick env clientId iss w) =
           events w @ [Assign_href iss (redirect_query (events (SmartLaunch_handleClick env clientId iss w)))] \<and>
         params_get (redirect_query (events (SmartLaunch_handleClick env clientId iss w))) ''state''
           = Some (randomUUID (entropy env)) \<and>
         params_get (redirect_query (events (SmartLaunch_handleClick env clientId iss w))) ''code_challenge''
           = None \<and>
         handleSmartLaunch_try env' (mount (sessionStorage (SmartLaunch_handleClick env clientId iss w)))
           = (Inl StateMismatch, mount (sessionStorage (SmartLaunch_handleClick env clientId iss w))) \<and>
         LaunchPage_effect env' (mount (sessionStorage (SmartLaunch_handleClick env clientId iss w)))
           = (mount (sessionStorage w))\<lparr>hasInitialized := True,
                error := Some (error_message StateMismatch)\<rparr>"
proof -
  have rq: "redirect_query (es @ [Assign_href u ps]) = ps" if "ps \<noteq> []" for es u ps
    using that by (induction es rule: redirect_query.induct) simp_all
  let ?w1 = "SmartLaunch_handleClick env clientId iss w"
  have ev: "redirect_query (events ?w1) =
              [(''response_type'', ''code''), (''client_id'', clientId), (''scope'', FHIR_SCOPE),
               (''redirect_uri'', location_origin env @ ''/launch''),
               (''state'', randomUUID (entropy env)), (''aud'', iss)]"
    by (simp add: SmartLaunch_handleClick_def emit_def rq)
  have evs: "events ?w1 = events w @
              [Assign_href iss
                 [(''response_type'', ''code''), (''client_id'', clientId), (''scope'', FHIR_SCOPE),
                  (''redirect_uri'', location_origin env @ ''/launch''),
                  (''state'', randomUUID (entropy env)), (''aud'', iss)]]"
    by (simp add: SmartLaunch_handleClick_def emit_def)
  have st: "sessionStorage ?w1 = sessionStorage w"
    by (simp add: SmartLaunch_handleClick_def emit_def)
  have state: "params_get (location_search env') ''state'' = Some (randomUUID (entropy env))"
    using assms(5) by (simp add: ev params_get_def)
  have fail: "handleSmartLaunch_try env' w' = (Inl StateMismatch, w')"
    if "sessionStorage w' ''smart_state'' = None" for w'
    using assms(2-4) state that
    by (simp add: handleSmartLaunch_try_def validateAuthResponse_def getItem_def Let_def truthy_def)
  have m: "sessionStorage (mount (sessionStorage w)) ''smart_state'' = None"
          "sessionStorage ((mount (sessionStorage w))\<lparr>hasInitialized := True\<rparr>) ''smart_state'' = None"
    using assms(1) by (simp_all add: mount_def)
  have c2: "events ?w1 = events w @ [Assign_href iss (redirect_query (events ?w1))]"
    unfolding ev by (rule evs)
  have c3: "params_get (redirect_query (events ?w1)) ''state'' = Some (randomUUID (entropy env))"
    by (simp add: ev params_get_def)
  have c4: "params_get (redirect_query (events ?w1)) ''code_challenge'' = None"
    by (simp add: ev params_get_def)
  have c5: "handleSmartLaunch_try env' (mount (sessionStorage ?w1))
              = (Inl StateMismatch, mount (sessionStorage ?w1))"
    unfolding st by (rule fail [OF m(1)])
  have c6: "LaunchPage_effect env' (mount (sessionStorage ?w1))
           = (mount (sessionStorage w))\<lparr>hasInitialized := True,
                error := Some (error_message StateMismatch)\<rparr>"
    unfolding st using fail [OF m(2)]
    by (simp add: LaunchPage_effect_def handleSmartLaunch_def mount_def)
  show ?thesis
    using st c2 c3 c4 c5 c6 by blast
qed

text \<open>
  Claim C10, in the example browser: a click on the SMART Health IT button over an empty
  store, then the callback with the state of that click.
\<close>

theorem standalone_launch_fails_state_check_witness:
  "sessionStorage (mount Map.empty) ''smart_state'' = None \<and>
   params_get (redirect_query (events (SmartLaunch_handleClick (demo_browser [])
      SMART_HEALTH_IT_CLIENT_ID SMART_HEALTH_IT_AUTH_URL (mount Map.empty)))) ''state''
     = Some ''00000000-0000-4000-8000-000000000000'' \<and>
   handleSmartLaunch_try
      (demo_browser [(''code'', ''c1''), (''state'', ''00000000-0000-4000-8000-000000000000'')])
      (mount (sessionStorage (SmartLaunch_handleClick (demo_browser [])
         SMART_HEALTH_IT_CLIENT_ID SMART_HEALTH_IT_AUTH_URL (mount Map.empty))))
     = (Inl StateMismatch, mount (sessionStorage (SmartLaunch_handleClick (demo_browser [])
         SMART_HEALTH_IT_CLIENT_ID SMART_HEALTH_IT_AUTH_URL (mount Map.empty))))"
proof -
  let ?env' = "demo_browser [(''code'', ''c1''), (''state'', ''00000000-0000-4000-8000-000000000000'')]"
  have a: "sessionStorage (mount Map.empty) ''smart_state'' = None"
    by (simp add: mount_def)
  have b: "\<not> truthy (params_get (location_search ?env') ''error'')"
          "\<not> truthy (params_get (location_search ?env') ''launch'')"
          "truthy (params_get (location_search ?env') ''code'')"
    by (simp_all add: demo_browser_def js_defs)
  have c: "params_get (location_search ?env') ''state''
             = params_get (redirect_query (events (SmartLaunch_handleClick (demo_browser [])
                  SMART_HEALTH_IT_CLIENT_ID SMART_HEALTH_IT_AUTH_URL (mount Map.empty)))) ''state''"
    by (simp add: demo_browser_def js_defs SmartLaunch_handleClick_def emit_def mount_def
          randomUUID_zero)
  have d: "entropy (demo_browser []) = (\<lambda>i. 0)"
    by (simp add: demo_browser_def)
  note t = standalone_launch_fails_state_check [OF a b c]
  have s: "params_get (redirect_query (events (SmartLaunch_handleClick (demo_browser [])
      SMART_HEALTH_IT_CLIENT_ID SMART_HEALTH_IT_AUTH_URL (mount Map.empty)))) ''state''
     = Some (randomUUID (entropy (demo_browser [])))"
    using t by blast
  have f: "handleSmartLaunch_try ?env'
      (mount (sessionStorage (SmartLaunch_handleClick (demo_browser [])
         SMART_HEALTH_IT_CLIENT_ID SMART_HEALTH_IT_AUTH_URL (mount Map.empty))))
     = (Inl StateMismatch, mount (sessionStorage (SmartLaunch_handleClick (demo_browser [])
         SMART_HEALTH_IT_CLIENT_ID SMART_HEALTH_IT_AUTH_URL (mount Map.empty))))"
    using t by blast
  show ?thesis
    using a s f by (simp only: d randomUUID_zero) 
qed

end
